theory Spec2Isabelle
  imports Main "HOL-Library.Word"
begin

unbundle bit_operations_syntax

section \<open>The BLE notify bridge of \<^verbatim>\<open>src/ble/adapter.c\<close>\<close>

text \<open>
  The file holds one global (\<^verbatim>\<open>g_pipe_fd\<close>), one callback (\<^verbatim>\<open>on_notify_cb\<close>) and two
  exported functions (\<^verbatim>\<open>adapter_set_pipe\<close>, \<^verbatim>\<open>adapter_get_callbacks\<close>). The callback builds
  a frame in a 512-byte stack buffer with four \<^verbatim>\<open>memcpy\<close> calls and hands it to one
  \<^verbatim>\<open>write(2)\<close> call.

  The target is the Kindle (ARM, little-endian): the object representation of a
  \<^verbatim>\<open>uint16_t\<close> is its low byte followed by its high byte.
\<close>

subsection \<open>Machine types\<close>

type_synonym byte = "8 word"
type_synonym uint16_t = "16 word"

text \<open>The bytes that \<^verbatim>\<open>memcpy(ptr, &x, 2)\<close> reads from a \<^verbatim>\<open>uint16_t x\<close>.\<close>

definition bytes_of_uint16 :: "uint16_t \<Rightarrow> byte list" where
  "bytes_of_uint16 w = [ucast w, ucast (drop_bit 8 w)]"

text \<open>
  \<^verbatim>\<open>bleConnHandle\<close> is declared in \<^verbatim>\<open><kindlebt/kindlebt.h>\<close>, which is not part of the
  sources. The callback only takes its \<^verbatim>\<open>sizeof\<close> and copies its bytes, so a handle is
  given by its object representation; \<^verbatim>\<open>sizeof(bleConnHandle)\<close> is the length of that.
\<close>

type_synonym bleConnHandle = "byte list"

definition sizeof_bleConnHandle :: "bleConnHandle \<Rightarrow> nat" where
  "sizeof_bleConnHandle conn_handle = length conn_handle"

text \<open>The object representation of a 4-byte handle value (a pointer on the 32-bit target).\<close>

definition bytes_of_uint32 :: "32 word \<Rightarrow> byte list" where
  "bytes_of_uint32 w =
     [ucast w, ucast (drop_bit 8 w), ucast (drop_bit 16 w), ucast (drop_bit 24 w)]"

text \<open>
  Modelled from the spec: \<^verbatim>\<open>gatt_characteristics.blobValue\<close>, whose struct declaration is in the
  same missing header. The spec gives the payload as a pointer and a length of 0..65535, and
  line 37 stores \<^verbatim>\<open>blobValue.size\<close> in a \<^verbatim>\<open>uint16_t\<close>. \<open>None\<close> is the null pointer;
  \<open>Some mem\<close> is a pointer to readable memory holding the bytes \<open>mem\<close>.
\<close>

record bleGattBlobValue =
  blobValue_size :: uint16_t
  blobValue_data :: "byte list option"

subsection \<open>Event header and event types (lines 13 to 23)\<close>

record event_header_t =
  header_type :: byte
  header_len :: uint16_t

text \<open>The struct is \<^verbatim>\<open>__attribute__((packed))\<close>: the two fields lie next to each other.\<close>

definition bytes_of_event_header :: "event_header_t \<Rightarrow> byte list" where
  "bytes_of_event_header header = header_type header # bytes_of_uint16 (header_len header)"

definition sizeof_event_header_t :: nat where
  "sizeof_event_header_t = 3"

definition EVENT_NOTIFY :: byte where
  "EVENT_NOTIFY = 1"

definition EVENT_CONNECT :: byte where
  "EVENT_CONNECT = 2"

definition EVENT_DISCONNECT :: byte where
  "EVENT_DISCONNECT = 3"

subsection \<open>State: the global and the channel\<close>

text \<open>
  \<open>g_pipe_fd\<close> is the C global (an \<^verbatim>\<open>int\<close>; it is only assigned and compared with 0).
  \<open>pipe_writes\<close> is the world outside: the \<^verbatim>\<open>write(2)\<close> calls issued so far, each with
  its descriptor and the bytes handed over.
\<close>

record adapter_state =
  g_pipe_fd :: int
  pipe_writes :: "(int \<times> byte list) list"

definition initial_state :: adapter_state where
  "initial_state = \<lparr>g_pipe_fd = - 1, pipe_writes = []\<rparr>"

definition write_fd :: "adapter_state \<Rightarrow> int \<Rightarrow> byte list \<Rightarrow> adapter_state" where
  "write_fd s fd bytes = s\<lparr>pipe_writes := pipe_writes s @ [(fd, bytes)]\<rparr>"

subsection \<open>The stack buffer and \<^verbatim>\<open>memcpy\<close>\<close>

text \<open>
  \<^verbatim>\<open>uint8_t buf[512]\<close> with the cursor \<^verbatim>\<open>ptr\<close> is the list of the bytes copied so far
  (\<^verbatim>\<open>ptr - buf\<close> is its length). C gives no meaning to a copy that runs past the end of
  \<open>buf\<close> or past the end of the source memory: both are faults of the model.
\<close>

datatype fault = Buffer_overflow | Read_out_of_bounds

definition sizeof_buf :: nat where
  "sizeof_buf = 512"

definition memcpy :: "byte list \<Rightarrow> byte list \<Rightarrow> nat \<Rightarrow> fault + byte list" where
  "memcpy buf src n =
     (if sizeof_buf < length buf + n then Inl Buffer_overflow
      else if length src < n then Inl Read_out_of_bounds
      else Inr (buf @ take n src))"

subsection \<open>\<^verbatim>\<open>on_notify_cb\<close> (lines 27 to 69)\<close>

text \<open>
  Line 38: the sum is taken in \<^verbatim>\<open>size_t\<close> and stored in a \<^verbatim>\<open>uint16_t\<close>, which keeps it
  modulo \<open>2 ^ 16\<close>.
\<close>

definition payload_len_of :: "bleConnHandle \<Rightarrow> uint16_t \<Rightarrow> uint16_t" where
  "payload_len_of conn_handle data_len =
     word_of_nat (sizeof_bleConnHandle conn_handle + 2 + unat data_len)"

text \<open>Line 46: \<^verbatim>\<open>sizeof(event_header_t) + payload_len > sizeof(buf)\<close>, in \<^verbatim>\<open>size_t\<close>.\<close>

definition frame_too_large :: "uint16_t \<Rightarrow> bool" where
  "frame_too_large payload_len \<longleftrightarrow> sizeof_buf < sizeof_event_header_t + unat payload_len"

definition on_notify_cb ::
  "adapter_state \<Rightarrow> bleConnHandle \<Rightarrow> bleGattBlobValue \<Rightarrow> fault + adapter_state" where
  "on_notify_cb s conn_handle blobValue =
     (if g_pipe_fd s < 0 then Inr s
      else (case blobValue_data blobValue of
          None \<Rightarrow> Inr s
        | Some mem \<Rightarrow>
          let data_len = blobValue_size blobValue;
              payload_len = payload_len_of conn_handle data_len;
              header = \<lparr>header_type = EVENT_NOTIFY, header_len = payload_len\<rparr>
          in if frame_too_large payload_len then Inr s
             else
               (case memcpy [] (bytes_of_event_header header) sizeof_event_header_t of
                  Inl f \<Rightarrow> Inl f
                | Inr buf1 \<Rightarrow>
               (case memcpy buf1 conn_handle (sizeof_bleConnHandle conn_handle) of
                  Inl f \<Rightarrow> Inl f
                | Inr buf2 \<Rightarrow>
               (case memcpy buf2 (bytes_of_uint16 data_len) 2 of
                  Inl f \<Rightarrow> Inl f
                | Inr buf3 \<Rightarrow>
               (case memcpy buf3 mem (unat data_len) of
                  Inl f \<Rightarrow> Inl f
                | Inr buf4 \<Rightarrow> Inr (write_fd s (g_pipe_fd s) buf4)))))))"

subsection \<open>Exported functions (lines 76 to 90)\<close>

definition adapter_set_pipe :: "int \<Rightarrow> adapter_state \<Rightarrow> adapter_state" where
  "adapter_set_pipe fd s = s\<lparr>g_pipe_fd := fd\<rparr>"

text \<open>
  A function pointer is null, the address of \<^verbatim>\<open>on_notify_cb\<close>, or the address of some
  other function. \<^verbatim>\<open>bleGattClientCallbacks_t\<close> is declared in the missing header; the code
  names one field of it, and the record's extension stands for all the others.
  \<open>None\<close> is the null pointer, \<open>Some c\<close> a pointer to a struct holding \<open>c\<close>; the
  result is what the pointer refers to afterwards.
\<close>

datatype fn_ptr = Null_fn | On_notify_cb | Other_fn nat

record bleGattClientCallbacks_t =
  notify_characteristics_cb :: fn_ptr

definition adapter_get_callbacks ::
  "'a bleGattClientCallbacks_t_scheme option \<Rightarrow> 'a bleGattClientCallbacks_t_scheme option" where
  "adapter_get_callbacks callbacks =
     (case callbacks of
        None \<Rightarrow> None
      | Some c \<Rightarrow> Some (c\<lparr>notify_characteristics_cb := On_notify_cb\<rparr>))"

subsection \<open>The consumer's side\<close>

text \<open>
  Modelled from the spec: the decoder of the external consumer, which is not part of the
  sources. It is the mirror of the wire-format table: offset 0, one byte of event kind;
  offset 1, two bytes of payload length (the bytes following this field); offset 3, the
  \<open>H\<close> bytes of the connection handle; offset \<open>3 + H\<close>, two bytes of data length; then that
  many bytes of data. Two-byte fields are read low byte first.
\<close>

record notify_event =
  ev_kind :: byte
  ev_length :: nat
  ev_handle :: "byte list"
  ev_data_len :: nat
  ev_data :: "byte list"

definition uint16_le :: "byte \<Rightarrow> byte \<Rightarrow> nat" where
  "uint16_le lo hi = unat lo + 256 * unat hi"

definition decode_frame :: "nat \<Rightarrow> byte list \<Rightarrow> notify_event option" where
  "decode_frame H frame =
     (if length frame < 3 then None
      else
        let kind = frame ! 0;
            len = uint16_le (frame ! 1) (frame ! 2);
            body = take len (drop 3 frame)
        in if length body < len \<or> len < H + 2 then None
           else
             let handle = take H body;
                 data_len = uint16_le (body ! H) (body ! (H + 1));
                 data = take data_len (drop (H + 2) body)
             in if length data < data_len then None
                else Some \<lparr>ev_kind = kind, ev_length = len, ev_handle = handle,
                           ev_data_len = data_len, ev_data = data\<rparr>)"

subsection \<open>A run of notifications\<close>

text \<open>
  The BLE stack calls the callback once per notification; a fault ends the run.
\<close>

fun notify_all ::
  "adapter_state \<Rightarrow> (bleConnHandle \<times> bleGattBlobValue) list \<Rightarrow> fault + adapter_state" where
  "notify_all s [] = Inr s"
| "notify_all s ((conn_handle, blobValue) # events) =
     (case on_notify_cb s conn_handle blobValue of
        Inl f \<Rightarrow> Inl f
      | Inr s' \<Rightarrow> notify_all s' events)"

section \<open>Basic facts\<close>

lemmas model_defs =
  on_notify_cb_def adapter_set_pipe_def initial_state_def bytes_of_uint32_def
  payload_len_of_def sizeof_bleConnHandle_def frame_too_large_def sizeof_buf_def
  sizeof_event_header_t_def memcpy_def bytes_of_event_header_def bytes_of_uint16_def
  EVENT_NOTIFY_def write_fd_def

subsection \<open>Two-byte fields\<close>

lemma length_bytes_of_uint16: "length (bytes_of_uint16 w) = 2"
  by (simp add: bytes_of_uint16_def)

lemma uint16_bytes_value:
  "unat (bytes_of_uint16 w ! 0) + 256 * unat (bytes_of_uint16 w ! 1) = unat w"
proof -
  have bound: "unat w < 65536"
    using unsigned_less [of w, where ?'a = nat] by simp
  have lo: "unat (ucast w :: byte) = unat w mod 256"
    by (simp add: unsigned_ucast_eq take_bit_eq_mod)
  have "unat (ucast (drop_bit 8 w) :: byte) = drop_bit 8 (unat w) mod 256"
    by (simp only: unsigned_ucast_eq unat_drop_bit_eq take_bit_eq_mod) simp
  with bound have hi: "unat (ucast (drop_bit 8 w) :: byte) = unat w div 256"
    by (simp add: drop_bit_eq_div)
  show ?thesis
    by (simp add: bytes_of_uint16_def lo hi)
qed

lemma uint16_le_bytes: "uint16_le (ucast w) (ucast (drop_bit 8 w)) = unat (w :: uint16_t)"
  using uint16_bytes_value [of w] by (simp add: uint16_le_def bytes_of_uint16_def)

lemma unat_payload_len_of:
  "sizeof_bleConnHandle h + 2 + unat d < 65536 \<Longrightarrow>
   unat (payload_len_of h d) = sizeof_bleConnHandle h + 2 + unat d"
  by (simp only: payload_len_of_def unat_of_nat) simp

subsection \<open>The write log\<close>

lemma write_fd_neq: "write_fd s fd frame \<noteq> s"
proof
  assume "write_fd s fd frame = s"
  then have "pipe_writes (write_fd s fd frame) = pipe_writes s" by simp
  then show False by (simp add: write_fd_def)
qed

lemma write_fd_inject:
  "write_fd s fd frame = write_fd s fd' frame' \<longleftrightarrow> fd = fd' \<and> frame = frame'"
proof
  assume "write_fd s fd frame = write_fd s fd' frame'"
  then have "pipe_writes (write_fd s fd frame) = pipe_writes (write_fd s fd' frame')" by simp
  then show "fd = fd' \<and> frame = frame'" by (simp add: write_fd_def)
qed simp

subsection \<open>What the callback does\<close>

text \<open>
  When the frame fits and the source memory holds the announced bytes, the callback issues
  one write of header, handle, data length and data.
\<close>

lemma on_notify_cb_fits:
  assumes "0 \<le> g_pipe_fd s" and "blobValue_data v = Some mem"
    and "unat (blobValue_size v) \<le> length mem"
    and "sizeof_event_header_t + sizeof_bleConnHandle h + 2 + unat (blobValue_size v) \<le> sizeof_buf"
  shows "on_notify_cb s h v =
     Inr (write_fd s (g_pipe_fd s)
       (bytes_of_event_header
          \<lparr>header_type = EVENT_NOTIFY, header_len = payload_len_of h (blobValue_size v)\<rparr>
        @ h @ bytes_of_uint16 (blobValue_size v) @ take (unat (blobValue_size v)) mem))"
proof -
  from assms(4) have small: "sizeof_bleConnHandle h + 2 + unat (blobValue_size v) \<le> 509"
    by (simp add: sizeof_event_header_t_def sizeof_buf_def)
  then have len: "unat (payload_len_of h (blobValue_size v))
      = sizeof_bleConnHandle h + 2 + unat (blobValue_size v)"
    by (intro unat_payload_len_of) simp
  from small len have "\<not> frame_too_large (payload_len_of h (blobValue_size v))"
    by (simp add: frame_too_large_def sizeof_event_header_t_def sizeof_buf_def)
  with assms small show ?thesis
    by (simp add: on_notify_cb_def Let_def memcpy_def sizeof_buf_def sizeof_event_header_t_def
        bytes_of_event_header_def length_bytes_of_uint16 sizeof_bleConnHandle_def)
qed

text \<open>Every call leaves the state alone, faults, or is a call of the kind above.\<close>

lemma on_notify_cb_cases:
  "on_notify_cb s h v = Inr s \<or> (\<exists>f. on_notify_cb s h v = Inl f) \<or>
   (0 \<le> g_pipe_fd s \<and> (\<exists>mem. blobValue_data v = Some mem \<and> unat (blobValue_size v) \<le> length mem)
     \<and> sizeof_event_header_t + sizeof_bleConnHandle h + 2 + unat (blobValue_size v) \<le> sizeof_buf)"
  by (auto simp add: on_notify_cb_def Let_def memcpy_def sizeof_buf_def sizeof_event_header_t_def
        bytes_of_event_header_def length_bytes_of_uint16 sizeof_bleConnHandle_def
      split: option.splits)

lemma on_notify_cb_wrote:
  assumes "on_notify_cb s h v = Inr (write_fd s fd frame)"
  shows "0 \<le> g_pipe_fd s \<and> fd = g_pipe_fd s \<and>
     sizeof_event_header_t + sizeof_bleConnHandle h + 2 + unat (blobValue_size v) \<le> sizeof_buf \<and>
     (\<exists>mem. blobValue_data v = Some mem \<and> unat (blobValue_size v) \<le> length mem \<and>
        frame = bytes_of_event_header
            \<lparr>header_type = EVENT_NOTIFY, header_len = payload_len_of h (blobValue_size v)\<rparr>
          @ h @ bytes_of_uint16 (blobValue_size v) @ take (unat (blobValue_size v)) mem)"
proof -
  from assms have "on_notify_cb s h v \<noteq> Inr s" and "\<forall>f. on_notify_cb s h v \<noteq> Inl f"
    by (simp_all add: write_fd_neq)
  with on_notify_cb_cases [of s h v]
  obtain mem where fd: "0 \<le> g_pipe_fd s" and mem: "blobValue_data v = Some mem"
    and rd: "unat (blobValue_size v) \<le> length mem"
    and fits: "sizeof_event_header_t + sizeof_bleConnHandle h + 2 + unat (blobValue_size v)
        \<le> sizeof_buf"
    by blast
  from on_notify_cb_fits [OF fd mem rd fits] assms
  have "fd = g_pipe_fd s \<and> frame = bytes_of_event_header
            \<lparr>header_type = EVENT_NOTIFY, header_len = payload_len_of h (blobValue_size v)\<rparr>
          @ h @ bytes_of_uint16 (blobValue_size v) @ take (unat (blobValue_size v)) mem"
    by (simp add: write_fd_inject)
  with fd mem rd fits show ?thesis by blast
qed

text \<open>
  As long as the sum of line 38 stays below \<open>2 ^ 16\<close>, the check of line 46 compares the
  true frame size with the buffer, and an oversize frame is dropped.
\<close>

lemma frame_too_large_without_wrap:
  assumes "sizeof_bleConnHandle h + 2 + unat n < 65536"
  shows "frame_too_large (payload_len_of h n) \<longleftrightarrow>
     sizeof_buf < sizeof_event_header_t + sizeof_bleConnHandle h + 2 + unat n"
  using unat_payload_len_of [OF assms] by (simp add: frame_too_large_def add.assoc)

lemma on_notify_cb_drops_oversize:
  assumes "0 \<le> g_pipe_fd s" and "blobValue_data v = Some mem"
    and "sizeof_bleConnHandle h + 2 + unat (blobValue_size v) < 65536"
    and "sizeof_buf < sizeof_event_header_t + sizeof_bleConnHandle h + 2 + unat (blobValue_size v)"
  shows "on_notify_cb s h v = Inr s"
  using assms frame_too_large_without_wrap [OF assms(3)]
  by (simp add: on_notify_cb_def Let_def)

text \<open>
  The buffer is overrun exactly when the check passes although the true frame size exceeds
  the buffer, which needs the sum of line 38 to wrap.
\<close>

lemma on_notify_cb_overflow_iff:
  assumes "0 \<le> g_pipe_fd s" and "blobValue_data v = Some mem"
  shows "on_notify_cb s h v = Inl Buffer_overflow \<longleftrightarrow>
     \<not> frame_too_large (payload_len_of h (blobValue_size v)) \<and>
     sizeof_buf < sizeof_event_header_t + sizeof_bleConnHandle h + 2 + unat (blobValue_size v)"
  using assms
  by (auto simp add: on_notify_cb_def Let_def memcpy_def sizeof_buf_def sizeof_event_header_t_def
      bytes_of_event_header_def length_bytes_of_uint16 sizeof_bleConnHandle_def)

text \<open>The decoder on a frame of the layout that the callback produces.\<close>

lemma decode_frame_layout:
  assumes "unat plen = length h + 2 + unat dlen" and "length payload = unat dlen"
  shows "decode_frame (length h)
       (bytes_of_event_header \<lparr>header_type = t, header_len = plen\<rparr>
        @ h @ bytes_of_uint16 dlen @ payload)
     = Some \<lparr>ev_kind = t, ev_length = length h + 2 + length payload, ev_handle = h,
             ev_data_len = length payload, ev_data = payload\<rparr>"
proof -
  let ?body = "h @ bytes_of_uint16 dlen @ payload"
  have frame: "bytes_of_event_header \<lparr>header_type = t, header_len = plen\<rparr> @ ?body
      = t # ucast plen # ucast (drop_bit 8 plen) # ?body"
    by (simp add: bytes_of_event_header_def bytes_of_uint16_def)
  have body: "?body = h @ ucast dlen # ucast (drop_bit 8 dlen) # payload"
    by (simp add: bytes_of_uint16_def)
  have blen: "length ?body = length h + 2 + unat dlen"
    using assms(2) by (simp add: length_bytes_of_uint16)
  have b0: "?body ! length h = ucast dlen"
    unfolding body by (simp add: nth_append)
  have b1: "?body ! (length h + 1) = ucast (drop_bit 8 dlen)"
    unfolding body by (simp add: nth_append)
  have dr: "drop (length h + 2) ?body = payload"
    by (simp add: length_bytes_of_uint16)
  show ?thesis
    unfolding frame
    using assms blen b0 b1 dr
    by (simp add: decode_frame_def uint16_le_bytes Let_def)
qed

section \<open>The properties of the specification\<close>

text \<open>
  C1. If the channel is set, the payload pointer is not null and covers \<open>len(payload)\<close>
  bytes, and \<open>3 + sizeof(handle) + 2 + len(payload) \<le> 512\<close>, then the callback writes a
  frame; the two bytes at offsets 1 and 2 of that frame, read low byte first, are
  \<open>sizeof(handle) + 2 + len(payload)\<close>, and that is the number of bytes after the 3-byte
  header.
\<close>

theorem on_notify_cb_length_field:
  assumes "0 \<le> g_pipe_fd s"
    and "blobValue_data v = Some payload"
    and "length payload = unat (blobValue_size v)"
    and "3 + sizeof_bleConnHandle h + 2 + length payload \<le> 512"
  shows "\<exists>frame. on_notify_cb s h v = Inr (write_fd s (g_pipe_fd s) frame) \<and>
     unat (frame ! 1) + 256 * unat (frame ! 2) = sizeof_bleConnHandle h + 2 + length payload \<and>
     length (drop 3 frame) = sizeof_bleConnHandle h + 2 + length payload"
proof -
  let ?n = "blobValue_size v"
  let ?frame = "bytes_of_event_header
       \<lparr>header_type = EVENT_NOTIFY, header_len = payload_len_of h ?n\<rparr>
     @ h @ bytes_of_uint16 ?n @ take (unat ?n) payload"
  from assms have fits: "sizeof_event_header_t + sizeof_bleConnHandle h + 2 + unat ?n \<le> sizeof_buf"
    by (simp add: sizeof_event_header_t_def sizeof_buf_def)
  from assms have rd: "unat ?n \<le> length payload" by simp
  have wr: "on_notify_cb s h v = Inr (write_fd s (g_pipe_fd s) ?frame)"
    by (rule on_notify_cb_fits [OF assms(1,2) rd fits])
  from assms have plen: "unat (payload_len_of h ?n) = sizeof_bleConnHandle h + 2 + length payload"
    by (simp add: unat_payload_len_of)
  have "?frame ! 1 = bytes_of_uint16 (payload_len_of h ?n) ! 0"
    and "?frame ! 2 = bytes_of_uint16 (payload_len_of h ?n) ! 1"
    by (simp_all add: bytes_of_event_header_def bytes_of_uint16_def)
  then have field: "unat (?frame ! 1) + 256 * unat (?frame ! 2)
      = sizeof_bleConnHandle h + 2 + length payload"
    using uint16_bytes_value [of "payload_len_of h ?n"] plen by simp
  from assms have rest: "length (drop 3 ?frame) = sizeof_bleConnHandle h + 2 + length payload"
    by (simp add: bytes_of_event_header_def length_bytes_of_uint16 sizeof_bleConnHandle_def)
  from wr field rest show ?thesis by blast
qed

text \<open>The largest frame: a 4-byte handle and 503 bytes of data fill the buffer exactly.\<close>

theorem on_notify_cb_length_field_witness:
  "0 \<le> g_pipe_fd (adapter_set_pipe 5 initial_state) \<and>
   blobValue_data \<lparr>blobValue_size = 503, blobValue_data = Some (replicate 503 0)\<rparr>
     = Some (replicate 503 0) \<and>
   length (replicate 503 (0 :: byte))
     = unat (blobValue_size \<lparr>blobValue_size = 503, blobValue_data = Some (replicate 503 0)\<rparr>) \<and>
   3 + sizeof_bleConnHandle (bytes_of_uint32 7) + 2 + length (replicate 503 (0 :: byte)) \<le> 512 \<and>
   (\<exists>frame. on_notify_cb (adapter_set_pipe 5 initial_state) (bytes_of_uint32 7)
        \<lparr>blobValue_size = 503, blobValue_data = Some (replicate 503 0)\<rparr>
      = Inr (write_fd (adapter_set_pipe 5 initial_state) 5 frame) \<and>
      unat (frame ! 1) + 256 * unat (frame ! 2) = 509 \<and> length (drop 3 frame) = 509)"
proof -
  let ?s = "adapter_set_pipe 5 initial_state"
  let ?v = "\<lparr>blobValue_size = 503, blobValue_data = Some (replicate 503 (0 :: byte))\<rparr>"
  have a: "0 \<le> g_pipe_fd ?s"
    by (simp add: adapter_set_pipe_def initial_state_def)
  have b: "blobValue_data ?v = Some (replicate 503 0)" by simp
  have c: "length (replicate 503 (0 :: byte)) = unat (blobValue_size ?v)" by simp
  have d: "3 + sizeof_bleConnHandle (bytes_of_uint32 7) + 2 + length (replicate 503 (0 :: byte))
      \<le> 512"
    by (simp add: sizeof_bleConnHandle_def bytes_of_uint32_def)
  have e: "g_pipe_fd ?s = 5" by (simp add: adapter_set_pipe_def)
  have f: "sizeof_bleConnHandle (bytes_of_uint32 7) + 2 + length (replicate 503 (0 :: byte)) = 509"
    by (simp add: sizeof_bleConnHandle_def bytes_of_uint32_def)
  from on_notify_cb_length_field [OF a b c d] a b c d show ?thesis
    unfolding e f by blast
qed

text \<open>
  C2. A payload whose frame is larger than 512 bytes must be dropped with nothing written.
  With a 4-byte handle and 65530 bytes of data the frame has 65539 bytes, the sum of line 38
  is \<open>65536\<close> and is stored as 0, the check of line 46 passes, and the fourth \<^verbatim>\<open>memcpy\<close>
  runs past the end of the buffer: the callback does not drop the payload.
\<close>

theorem on_notify_cb_oversize_not_dropped:
  "sizeof_buf < sizeof_event_header_t + sizeof_bleConnHandle (bytes_of_uint32 7) + 2
       + length (replicate 65530 (0 :: byte)) \<and>
   on_notify_cb (adapter_set_pipe 5 initial_state) (bytes_of_uint32 7)
       \<lparr>blobValue_size = 65530, blobValue_data = Some (replicate 65530 0)\<rparr>
     = Inl Buffer_overflow"
  by (simp add: model_defs)

text \<open>
  C3. With the channel set to descriptor 5, the 4-byte handle value \<open>0x00000007\<close> and the
  payload \<open>AA BB CC\<close>, the callback issues one write of exactly the twelve bytes
  \<open>01 09 00 07 00 00 00 03 00 AA BB CC\<close>.
\<close>

theorem on_notify_cb_concrete_frame:
  "on_notify_cb (adapter_set_pipe 5 initial_state) (bytes_of_uint32 0x00000007)
       \<lparr>blobValue_size = 3, blobValue_data = Some [0xAA, 0xBB, 0xCC]\<rparr>
     = Inr \<lparr>g_pipe_fd = 5,
           pipe_writes = [(5, [0x01, 0x09, 0x00, 0x07, 0x00, 0x00, 0x00, 0x03, 0x00,
                               0xAA, 0xBB, 0xCC])]\<rparr>"
  by (simp add: model_defs drop_bit_eq_div)

text \<open>
  C4. Round trip: whenever the callback writes a frame, decoding that frame by the
  wire-format table gives back kind 1, the handle bytes and the payload bytes as they were
  passed in, together with the two length fields.
\<close>

theorem decode_frame_on_notify_cb:
  assumes "on_notify_cb s h v = Inr (write_fd s fd frame)"
    and "blobValue_data v = Some payload"
    and "length payload = unat (blobValue_size v)"
  shows "decode_frame (sizeof_bleConnHandle h) frame
     = Some \<lparr>ev_kind = EVENT_NOTIFY,
             ev_length = sizeof_bleConnHandle h + 2 + length payload,
             ev_handle = h, ev_data_len = length payload, ev_data = payload\<rparr>"
proof -
  let ?n = "blobValue_size v"
  from on_notify_cb_wrote [OF assms(1)] assms(2,3)
  have fits: "sizeof_event_header_t + sizeof_bleConnHandle h + 2 + unat ?n \<le> sizeof_buf"
    and frame: "frame = bytes_of_event_header
            \<lparr>header_type = EVENT_NOTIFY, header_len = payload_len_of h ?n\<rparr>
          @ h @ bytes_of_uint16 ?n @ payload"
    by auto
  from fits have "unat (payload_len_of h ?n) = length h + 2 + unat ?n"
    using unat_payload_len_of [of h ?n]
    by (simp add: sizeof_event_header_t_def sizeof_buf_def sizeof_bleConnHandle_def)
  from decode_frame_layout [OF this assms(3)] show ?thesis
    by (simp add: frame sizeof_bleConnHandle_def)
qed

theorem decode_frame_on_notify_cb_witness:
  "on_notify_cb (adapter_set_pipe 5 initial_state) (bytes_of_uint32 7)
       \<lparr>blobValue_size = 3, blobValue_data = Some [0xAA, 0xBB, 0xCC]\<rparr>
     = Inr (write_fd (adapter_set_pipe 5 initial_state) 5
         [0x01, 0x09, 0x00, 0x07, 0x00, 0x00, 0x00, 0x03, 0x00, 0xAA, 0xBB, 0xCC]) \<and>
   decode_frame 4 [0x01, 0x09, 0x00, 0x07, 0x00, 0x00, 0x00, 0x03, 0x00, 0xAA, 0xBB, 0xCC]
     = Some \<lparr>ev_kind = 1, ev_length = 9, ev_handle = [0x07, 0x00, 0x00, 0x00],
             ev_data_len = 3, ev_data = [0xAA, 0xBB, 0xCC]\<rparr>"
proof -
  let ?s = "adapter_set_pipe 5 initial_state"
  let ?v = "\<lparr>blobValue_size = 3, blobValue_data = Some [0xAA, 0xBB, 0xCC :: byte]\<rparr>"
  let ?frame = "[0x01, 0x09, 0x00, 0x07, 0x00, 0x00, 0x00, 0x03, 0x00, 0xAA, 0xBB, 0xCC :: byte]"
  have a: "on_notify_cb ?s (bytes_of_uint32 7) ?v = Inr (write_fd ?s 5 ?frame)"
    by (simp add: model_defs drop_bit_eq_div)
  have b: "blobValue_data ?v = Some [0xAA, 0xBB, 0xCC]" by simp
  have c: "length [0xAA, 0xBB, 0xCC :: byte] = unat (blobValue_size ?v)" by simp
  have d: "bytes_of_uint32 7 = [0x07, 0x00, 0x00, 0x00]"
    by (simp add: bytes_of_uint32_def drop_bit_eq_div)
  have e: "sizeof_bleConnHandle [0x07, 0x00, 0x00, 0x00] = 4"
    by (simp add: sizeof_bleConnHandle_def)
  have f: "length [0xAA, 0xBB, 0xCC :: byte] = 3" by simp
  from decode_frame_on_notify_cb [OF a b c]
  have "decode_frame 4 ?frame
      = Some \<lparr>ev_kind = EVENT_NOTIFY, ev_length = 4 + 2 + 3, ev_handle = [0x07, 0x00, 0x00, 0x00],
               ev_data_len = 3, ev_data = [0xAA, 0xBB, 0xCC]\<rparr>"
    unfolding d e f .
  with a show ?thesis
    by (simp add: EVENT_NOTIFY_def)
qed

text \<open>
  C5, as stated, includes the empty payload among the calls that write nothing. The code
  tests the data pointer only: a payload of length zero behind a pointer that is not null is
  framed and written, here as the nine bytes \<open>01 06 00 07 00 00 00 00 00\<close>.
\<close>

theorem on_notify_cb_empty_payload_is_written:
  "on_notify_cb (adapter_set_pipe 5 initial_state) (bytes_of_uint32 7)
       \<lparr>blobValue_size = 0, blobValue_data = Some []\<rparr>
     = Inr \<lparr>g_pipe_fd = 5,
           pipe_writes = [(5, [0x01, 0x06, 0x00, 0x07, 0x00, 0x00, 0x00, 0x00, 0x00])]\<rparr>"
  by (simp add: model_defs drop_bit_eq_div)

text \<open>
  C5, amended. If the channel is unset or invalid (\<open>g_pipe_fd < 0\<close>) or the payload's data
  pointer is null, the callback returns at once, without a fault and with nothing written.
\<close>

theorem on_notify_cb_no_op:
  assumes "g_pipe_fd s < 0 \<or> blobValue_data v = None"
  shows "on_notify_cb s h v = Inr s"
  using assms by (auto simp add: on_notify_cb_def)

theorem on_notify_cb_no_op_witness:
  "(g_pipe_fd initial_state < 0 \<or>
      blobValue_data \<lparr>blobValue_size = 3, blobValue_data = Some [0xAA, 0xBB, 0xCC]\<rparr> = None) \<and>
   on_notify_cb initial_state (bytes_of_uint32 7)
       \<lparr>blobValue_size = 3, blobValue_data = Some [0xAA, 0xBB, 0xCC]\<rparr> = Inr initial_state \<and>
   (g_pipe_fd (adapter_set_pipe 5 initial_state) < 0 \<or>
      blobValue_data \<lparr>blobValue_size = 3, blobValue_data = None\<rparr> = None) \<and>
   on_notify_cb (adapter_set_pipe 5 initial_state) (bytes_of_uint32 7)
       \<lparr>blobValue_size = 3, blobValue_data = None\<rparr> = Inr (adapter_set_pipe 5 initial_state)"
proof -
  have a: "g_pipe_fd initial_state < 0 \<or>
      blobValue_data \<lparr>blobValue_size = 3, blobValue_data = Some [0xAA, 0xBB, 0xCC]\<rparr> = None"
    by (simp add: initial_state_def)
  have b: "g_pipe_fd (adapter_set_pipe 5 initial_state) < 0 \<or>
      blobValue_data \<lparr>blobValue_size = 3, blobValue_data = None\<rparr> = None"
    by simp
  from on_notify_cb_no_op [OF a] on_notify_cb_no_op [OF b] a b show ?thesis
    by blast
qed

text \<open>
  C6. The capacity check is meant to keep every copy inside the 512-byte buffer. With a
  4-byte handle and \<open>blobValue.size = 65530\<close> the 16-bit \<open>payload_len\<close> is 0, the check
  passes although \<open>3 + 4 + 2 + 65530 > 512\<close>, and the copy of the data, which starts at
  offset 9, overruns the buffer.
\<close>

theorem capacity_check_passes_on_wrapped_length:
  "payload_len_of (bytes_of_uint32 7) 65530 = 0 \<and>
   \<not> frame_too_large (payload_len_of (bytes_of_uint32 7) 65530) \<and>
   \<not> 3 + sizeof_bleConnHandle (bytes_of_uint32 7) + 2 + unat (65530 :: uint16_t) \<le> 512 \<and>
   memcpy ([0x01, 0x00, 0x00] @ bytes_of_uint32 7 @ bytes_of_uint16 65530)
       (replicate 65530 0) (unat (65530 :: uint16_t))
     = Inl Buffer_overflow"
  by (simp add: model_defs)

text \<open>
  C7. The header is three bytes: the kind tag at offset 0 and the two bytes of the length
  field right behind it. The tags are NOTIFY = 1, CONNECT = 2, DISCONNECT = 3. Every frame the
  callback writes starts with the header of a NOTIFY event, so its first byte is 1, and the
  handle follows at offset 3.
\<close>

theorem header_three_bytes_kind_first:
  "sizeof_event_header_t = 3 \<and>
   length (bytes_of_event_header header) = 3 \<and>
   bytes_of_event_header header ! 0 = header_type header \<and>
   [bytes_of_event_header header ! 1, bytes_of_event_header header ! 2]
     = bytes_of_uint16 (header_len header) \<and>
   EVENT_NOTIFY = 1 \<and> EVENT_CONNECT = 2 \<and> EVENT_DISCONNECT = 3 \<and>
   (on_notify_cb s h v = Inr (write_fd s fd frame) \<longrightarrow>
      frame ! 0 = 1 \<and>
      take 3 frame = bytes_of_event_header
        \<lparr>header_type = EVENT_NOTIFY, header_len = payload_len_of h (blobValue_size v)\<rparr> \<and>
      take (sizeof_bleConnHandle h) (drop 3 frame) = h)"
proof -
  have layout: "sizeof_event_header_t = 3 \<and>
      length (bytes_of_event_header header) = 3 \<and>
      bytes_of_event_header header ! 0 = header_type header \<and>
      [bytes_of_event_header header ! 1, bytes_of_event_header header ! 2]
        = bytes_of_uint16 (header_len header)"
    by (simp add: sizeof_event_header_t_def bytes_of_event_header_def bytes_of_uint16_def)
  have tags: "EVENT_NOTIFY = 1 \<and> EVENT_CONNECT = 2 \<and> EVENT_DISCONNECT = 3"
    by (simp add: EVENT_NOTIFY_def EVENT_CONNECT_def EVENT_DISCONNECT_def)
  have emitted: "frame ! 0 = 1 \<and>
      take 3 frame = bytes_of_event_header
        \<lparr>header_type = EVENT_NOTIFY, header_len = payload_len_of h (blobValue_size v)\<rparr> \<and>
      take (sizeof_bleConnHandle h) (drop 3 frame) = h"
    if "on_notify_cb s h v = Inr (write_fd s fd frame)"
  proof -
    from on_notify_cb_wrote [OF that] obtain mem where
      "frame = bytes_of_event_header
            \<lparr>header_type = EVENT_NOTIFY, header_len = payload_len_of h (blobValue_size v)\<rparr>
          @ h @ bytes_of_uint16 (blobValue_size v) @ take (unat (blobValue_size v)) mem"
      by blast
    then show ?thesis
      by (simp add: bytes_of_event_header_def bytes_of_uint16_def EVENT_NOTIFY_def
          sizeof_bleConnHandle_def)
  qed
  from layout tags emitted show ?thesis by blast
qed

theorem header_three_bytes_kind_first_witness:
  "on_notify_cb (adapter_set_pipe 5 initial_state) (bytes_of_uint32 7)
       \<lparr>blobValue_size = 3, blobValue_data = Some [0xAA, 0xBB, 0xCC]\<rparr>
     = Inr (write_fd (adapter_set_pipe 5 initial_state) 5
         [0x01, 0x09, 0x00, 0x07, 0x00, 0x00, 0x00, 0x03, 0x00, 0xAA, 0xBB, 0xCC]) \<and>
   [0x01, 0x09, 0x00, 0x07, 0x00, 0x00, 0x00, 0x03, 0x00, 0xAA, 0xBB, 0xCC :: byte] ! 0 = 1 \<and>
   take 3 [0x01, 0x09, 0x00, 0x07, 0x00, 0x00, 0x00, 0x03, 0x00, 0xAA, 0xBB, 0xCC :: byte]
     = bytes_of_event_header \<lparr>header_type = EVENT_NOTIFY, header_len = 9\<rparr> \<and>
   take (sizeof_bleConnHandle (bytes_of_uint32 7))
       (drop 3 [0x01, 0x09, 0x00, 0x07, 0x00, 0x00, 0x00, 0x03, 0x00, 0xAA, 0xBB, 0xCC :: byte])
     = bytes_of_uint32 7"
proof -
  let ?s = "adapter_set_pipe 5 initial_state"
  let ?v = "\<lparr>blobValue_size = 3, blobValue_data = Some [0xAA, 0xBB, 0xCC :: byte]\<rparr>"
  let ?frame = "[0x01, 0x09, 0x00, 0x07, 0x00, 0x00, 0x00, 0x03, 0x00, 0xAA, 0xBB, 0xCC :: byte]"
  have a: "on_notify_cb ?s (bytes_of_uint32 7) ?v = Inr (write_fd ?s 5 ?frame)"
    by (simp add: model_defs drop_bit_eq_div)
  have b: "payload_len_of (bytes_of_uint32 7) (blobValue_size ?v) = 9"
    by (simp add: payload_len_of_def sizeof_bleConnHandle_def bytes_of_uint32_def)
  from header_three_bytes_kind_first
    [of "\<lparr>header_type = EVENT_NOTIFY, header_len = 9\<rparr>" ?s "bytes_of_uint32 7" ?v 5 ?frame] a
  show ?thesis
    unfolding b by blast
qed

text \<open>
  C8. The callback is meant to return normally on every input, having written one whole
  frame or nothing. With a 4-byte handle and the largest payload size, 65535, the 16-bit
  \<open>payload_len\<close> is 5, the check of line 46 passes, and the copy of the data overruns the
  buffer: the call has no defined outcome.
\<close>

theorem on_notify_cb_faults_on_largest_payload:
  "on_notify_cb (adapter_set_pipe 5 initial_state) (bytes_of_uint32 7)
       \<lparr>blobValue_size = 65535, blobValue_data = Some (replicate 65535 0xFF)\<rparr>
     = Inl Buffer_overflow"
  by (simp add: model_defs)

text \<open>
  C9. For a null pointer \<open>adapter_get_callbacks\<close> does nothing. Otherwise the struct
  afterwards has \<open>notify_characteristics_cb\<close> set to \<open>on_notify_cb\<close>, and all its other
  fields are as they were.
\<close>

theorem adapter_get_callbacks_sets_notify_only:
  "adapter_get_callbacks None = None \<and>
   (\<exists>c'. adapter_get_callbacks (Some c) = Some c' \<and>
      notify_characteristics_cb c' = On_notify_cb \<and>
      bleGattClientCallbacks_t.more c' = bleGattClientCallbacks_t.more c)"
  by (simp add: adapter_get_callbacks_def)

text \<open>
  C10. Setting the channel twice to the same descriptor gives the same state as setting it
  once, so the next notification, and every run of notifications after it, has the same
  outcome in both cases.
\<close>

theorem adapter_set_pipe_idempotent:
  "adapter_set_pipe fd (adapter_set_pipe fd s) = adapter_set_pipe fd s \<and>
   on_notify_cb (adapter_set_pipe fd (adapter_set_pipe fd s)) h v
     = on_notify_cb (adapter_set_pipe fd s) h v \<and>
   notify_all (adapter_set_pipe fd (adapter_set_pipe fd s)) events
     = notify_all (adapter_set_pipe fd s) events"
proof -
  have "adapter_set_pipe fd (adapter_set_pipe fd s) = adapter_set_pipe fd s"
    by (simp add: adapter_set_pipe_def)
  then show ?thesis by simp
qed

end
